theory Spec2Isabelle
  imports Complex_Main "HOL-Library.Sublist"
begin

section \<open>Strings and arrays of the runtime\<close>

text \<open>
  A JavaScript string is a sequence of UTF-16 code units. The texts of the records, the
  search text and the department selection are lists of code units (\<open>jstring\<close>), a code unit
  being a natural number below 65536; \<open>utf16\<close> gives the code units of a literal. File names
  and media types, the input of the mobile-number rule and the fixed texts of messages,
  file names and sheet names are written as \<^typ>\<open>string\<close>, where a character stands for a
  code unit in the range 0..255. Lengths and sizes are natural numbers, page numbers and
  array indices are integers.
\<close>

type_synonym code_unit = nat

type_synonym jstring = "code_unit list"

definition utf16 :: "string \<Rightarrow> jstring" where
  "utf16 s = map of_char s"

text \<open>
  \<open>String.prototype.toLowerCase\<close> lower-cases a whole string by the default case
  conversion of Unicode. It is modelled on the strings over this alphabet: Basic Latin and
  Latin-1 (0..0xFF), the Greek capital letters U+0391..U+03A9, the Greek small letters
  U+03B1..U+03C9, the capital I with dot above U+0130 and the combining dot above U+0307.
  On it the conversion does three things:
  \<^item> a capital letter goes to its small letter, 32 code units above;
  \<^item> U+0130 goes to the two code units U+0069 U+0307;
  \<^item> the capital sigma U+03A3 goes to the final sigma U+03C2 when it ends a word, that is
    when a cased letter comes before it and none comes after it, case-ignorable code units
    in between being skipped, and to the small sigma U+03C3 otherwise.
  Code units outside the alphabet are kept and count as neither cased nor case-ignorable;
  the conversion of further scripts is not part of this model.
\<close>

definition lower_unit :: "code_unit \<Rightarrow> jstring" where
  "lower_unit c =
     (if c = 0x130 then [0x69, 0x307]
      else if (0x41 \<le> c \<and> c \<le> 0x5A) \<or> (0xC0 \<le> c \<and> c \<le> 0xD6) \<or> (0xD8 \<le> c \<and> c \<le> 0xDE)
              \<or> (0x391 \<le> c \<and> c \<le> 0x3A1) \<or> (0x3A3 \<le> c \<and> c \<le> 0x3A9)
      then [c + 32] else [c])"

text \<open>The properties Cased and Case_Ignorable of Unicode on the alphabet.\<close>

definition cased :: "code_unit \<Rightarrow> bool" where
  "cased c =
     ((0x41 \<le> c \<and> c \<le> 0x5A) \<or> (0x61 \<le> c \<and> c \<le> 0x7A) \<or> c \<in> {0xAA, 0xB5, 0xBA}
      \<or> (0xC0 \<le> c \<and> c \<le> 0xD6) \<or> (0xD8 \<le> c \<and> c \<le> 0xF6) \<or> (0xF8 \<le> c \<and> c \<le> 0xFF)
      \<or> c = 0x130
      \<or> (0x391 \<le> c \<and> c \<le> 0x3A1) \<or> (0x3A3 \<le> c \<and> c \<le> 0x3A9)
      \<or> (0x3B1 \<le> c \<and> c \<le> 0x3C9))"

definition case_ignorable :: "code_unit \<Rightarrow> bool" where
  "case_ignorable c =
     (c \<in> {0x27, 0x2E, 0x3A, 0x5E, 0x60, 0xA8, 0xAD, 0xAF, 0xB4, 0xB7, 0xB8, 0x307})"

text \<open>Going away from a sigma, over the case-ignorable code units: is the first other code
  unit a cased letter?\<close>

fun cased_ahead :: "jstring \<Rightarrow> bool" where
  "cased_ahead [] = False"
| "cased_ahead (c # cs) = (if case_ignorable c then cased_ahead cs else cased c)"

text \<open>The conversion from left to right; \<open>before\<close> holds the code units already passed, the
  nearest first.\<close>

fun lower_from :: "jstring \<Rightarrow> jstring \<Rightarrow> jstring" where
  "lower_from before [] = []"
| "lower_from before (c # cs) =
     (if c = 0x3A3
      then [if cased_ahead before \<and> \<not> cased_ahead cs then 0x3C2 else 0x3C3]
      else lower_unit c) @ lower_from (c # before) cs"

definition toLowerCase :: "jstring \<Rightarrow> jstring" where
  "toLowerCase s = lower_from [] s"

text \<open>\<open>s.includes(t)\<close>: scan the start positions of \<open>s\<close> from the left for an occurrence
  of \<open>t\<close>.\<close>

fun includes_str :: "'a list \<Rightarrow> 'a list \<Rightarrow> bool" where
  "includes_str [] t = (t = [])"
| "includes_str (c # cs) t = (prefix t (c # cs) \<or> includes_str cs t)"

text \<open>\<open>String.prototype.trim\<close>: white space and line terminators of the range 0..255 are
  TAB, LF, VT, FF, CR, SP and NBSP.\<close>

definition isWhiteSpace :: "char \<Rightarrow> bool" where
  "isWhiteSpace c = ((of_char c :: nat) \<in> {9, 10, 11, 12, 13, 32, 160})"

definition trim :: "string \<Rightarrow> string" where
  "trim s = rev (dropWhile isWhiteSpace (rev (dropWhile isWhiteSpace s)))"

text \<open>The regular-expression class \<open>\d\<close>: the ten ASCII digits.\<close>

definition isDigit :: "char \<Rightarrow> bool" where
  "isDigit c = (48 \<le> (of_char c :: nat) \<and> (of_char c :: nat) \<le> 57)"

text \<open>\<open>s.split(sep)\<close> for a one-character separator, and \<open>parts.join(sep)\<close>.\<close>

fun split_str :: "'a \<Rightarrow> 'a list \<Rightarrow> 'a list list" where
  "split_str sep [] = [[]]"
| "split_str sep (c # cs) =
     (if c = sep then [] # split_str sep cs
      else (case split_str sep cs of [] \<Rightarrow> [[c]] | p # ps \<Rightarrow> (c # p) # ps))"

fun join_str :: "'a list \<Rightarrow> 'a list list \<Rightarrow> 'a list" where
  "join_str sep [] = []"
| "join_str sep [p] = p"
| "join_str sep (p # q # ps) = p @ sep @ join_str sep (q # ps)"

text \<open>
  \<open>Array.prototype.slice(start, end)\<close> on integer arguments: a negative index counts from
  the end of the array, both indices are clamped to \<open>[0, length]\<close>, and the result is empty
  when the clamped end does not lie after the clamped start.
\<close>

definition slice :: "'a list \<Rightarrow> int \<Rightarrow> int \<Rightarrow> 'a list" where
  "slice xs start end =
     (let len = int (length xs);
          k = (if start < 0 then max (len + start) 0 else min start len);
          final = (if end < 0 then max (len + end) 0 else min end len)
      in take (nat (final - k)) (drop (nat k) xs))"

text \<open>\<open>slice(start)\<close>, the end left out: up to the end of the array.\<close>

definition slice_from :: "'a list \<Rightarrow> int \<Rightarrow> 'a list" where
  "slice_from xs start = slice xs start (int (length xs))"

text \<open>
  An awaited call of the backend client either resolves with a value or rejects, and a
  rejection is an exception at the \<open>await\<close>. The value of the calls used here carries an
  optional error.
\<close>

datatype 'a awaited = Resolved 'a | Rejected

type_synonym response = "string option awaited"

section \<open>\<open>src/lib/validations.ts\<close>\<close>

definition MAX_FILE_SIZE :: nat where
  "MAX_FILE_SIZE = 2 * 1024 * 1024"

definition ACCEPTED_IMAGE_TYPES :: "string list" where
  "ACCEPTED_IMAGE_TYPES = [''image/jpeg'', ''image/jpg'', ''image/png'']"

text \<open>The regular expression \<open>/^\d{n}$/\<close> tested on a whole string: \<open>n\<close> digits, then the
  end of the input.\<close>

fun match_digits :: "nat \<Rightarrow> string \<Rightarrow> bool" where
  "match_digits 0 s = (s = [])"
| "match_digits (Suc n) [] = False"
| "match_digits (Suc n) (c # cs) = (isDigit c \<and> match_digits n cs)"

text \<open>
  The \<open>mobileNumber\<close> field of \<open>registrationSchema\<close>: \<open>z.string().trim().regex(/^\d{10}$/, msg)\<close>.
  The result is the message of the failed check or the trimmed value.
\<close>

definition mobileNumber_schema :: "string \<Rightarrow> string + string" where
  "mobileNumber_schema input =
     (let data = trim input
      in if match_digits 10 data then Inr data
         else Inl ''Mobile number must be exactly 10 digits'')"

section \<open>The registration record (\<open>types/registration.ts\<close>)\<close>

datatype gender = male | female | other

record Registration =
  id_reg :: jstring
  full_name :: jstring
  mobile_number :: jstring
  email :: jstring
  gender :: gender
  department :: jstring
  address :: jstring
  photo_url :: jstring
  created_at :: jstring
  updated_at :: jstring

text \<open>The output type of \<open>registrationSchema\<close>, the value a form hands to its submit
  handler.\<close>

record RegistrationFormData =
  fullName :: jstring
  mobileNumber :: jstring
  email_form :: jstring
  gender_form :: gender
  department_form :: jstring
  address_form :: jstring

text \<open>
  A \<open>Partial<Registration>\<close> object is the list of its properties in the order they were
  written; spreading it over a record (\<open>{ ...r, ...data }\<close>) assigns them one by one.
\<close>

datatype property =
    P_id jstring | P_full_name jstring | P_mobile_number jstring | P_email jstring
  | P_gender gender | P_department jstring | P_address jstring | P_photo_url jstring
  | P_created_at jstring | P_updated_at jstring

fun assign :: "Registration \<Rightarrow> property \<Rightarrow> Registration" where
  "assign r (P_id v) = r\<lparr>id_reg := v\<rparr>"
| "assign r (P_full_name v) = r\<lparr>full_name := v\<rparr>"
| "assign r (P_mobile_number v) = r\<lparr>mobile_number := v\<rparr>"
| "assign r (P_email v) = r\<lparr>email := v\<rparr>"
| "assign r (P_gender v) = r\<lparr>gender := v\<rparr>"
| "assign r (P_department v) = r\<lparr>department := v\<rparr>"
| "assign r (P_address v) = r\<lparr>address := v\<rparr>"
| "assign r (P_photo_url v) = r\<lparr>photo_url := v\<rparr>"
| "assign r (P_created_at v) = r\<lparr>created_at := v\<rparr>"
| "assign r (P_updated_at v) = r\<lparr>updated_at := v\<rparr>"

definition spread :: "Registration \<Rightarrow> property list \<Rightarrow> Registration" where
  "spread r data = foldl assign r data"

section \<open>Photo check of \<open>RegistrationForm.tsx\<close>\<close>

text \<open>The fields of a browser \<open>File\<close> that the code reads.\<close>

record File =
  file_name :: string
  file_type :: string
  file_size :: nat

text \<open>
  \<open>validatePhoto\<close> reads the held file \<open>photoFile\<close> (\<open>None\<close> is \<open>null\<close>) and returns
  its boolean result together with the new value of the \<open>photoError\<close> state.
\<close>

definition validatePhoto :: "File option \<Rightarrow> bool \<times> string" where
  "validatePhoto photoFile =
     (case photoFile of
        None \<Rightarrow> (False, ''Please upload a photo'')
      | Some f \<Rightarrow>
          if file_type f \<notin> set ACCEPTED_IMAGE_TYPES
          then (False, ''Only JPG and PNG files are allowed'')
          else if file_size f > MAX_FILE_SIZE
          then (False, ''File size must be less than 2MB'')
          else (True, ''''))"

section \<open>The file-upload control (component \<open>FileUpload\<close>)\<close>

text \<open>
  \<open>handleFileChange\<close> of the control. Its result is the new value of the control's
  \<open>preview\<close> state and the list of the calls of the \<open>onChange\<close> property it made.
  \<open>readAsDataURL\<close> stands for the browser's \<open>FileReader\<close>: the value of \<open>reader.result\<close>
  when loading has ended, a data URL, or \<open>null\<close> when the file could not be read.
\<close>

definition handleFileChange ::
  "(File \<Rightarrow> string option) \<Rightarrow> File option \<Rightarrow> string option \<Rightarrow> string option \<times> File option list"
where
  "handleFileChange readAsDataURL file preview =
     (case file of
        Some f \<Rightarrow>
          if file_type f \<notin> set ACCEPTED_IMAGE_TYPES then (preview, [])
          else if file_size f > MAX_FILE_SIZE then (preview, [])
          else (readAsDataURL f, [Some f])
      | None \<Rightarrow> (None, [None]))"

text \<open>
  The control as the registration form mounts it: \<open>value={photoFile}\<close>,
  \<open>onChange={setPhotoFile}\<close>, \<open>error={photoError}\<close>. The state is the form's held file and
  error message and the control's preview.
\<close>

record upload_state =
  photoFile :: "File option"
  photoError :: string
  preview :: "string option"

definition file_selected ::
  "(File \<Rightarrow> string option) \<Rightarrow> File option \<Rightarrow> upload_state \<Rightarrow> upload_state" where
  "file_selected readAsDataURL file st =
     (case handleFileChange readAsDataURL file (preview st) of
        (preview', calls) \<Rightarrow>
          st\<lparr>preview := preview', photoFile := foldl (\<lambda>held v. v) (photoFile st) calls\<rparr>)"

section \<open>The registrations table (\<open>components/admin/RegistrationsTable.tsx\<close>)\<close>

definition ITEMS_PER_PAGE :: nat where
  "ITEMS_PER_PAGE = 10"

definition filteredRegistrations ::
  "Registration list \<Rightarrow> jstring \<Rightarrow> jstring \<Rightarrow> Registration list" where
  "filteredRegistrations registrations search departmentFilter =
     filter (\<lambda>reg.
        let matchesSearch =
              (includes_str (toLowerCase (full_name reg)) (toLowerCase search) \<or>
               includes_str (mobile_number reg) search \<or>
               includes_str (toLowerCase (email reg)) (toLowerCase search));
            matchesDepartment =
              (departmentFilter = utf16 ''all'' \<or> department reg = departmentFilter)
        in matchesSearch \<and> matchesDepartment) registrations"

text \<open>\<open>Math.ceil(filteredRegistrations.length / ITEMS_PER_PAGE)\<close>; the quotient of two array
  lengths is far inside the range where the floating-point division rounds to the same
  ceiling as the exact one.\<close>

definition totalPages :: "'a list \<Rightarrow> int" where
  "totalPages filtered = \<lceil>real (length filtered) / real ITEMS_PER_PAGE\<rceil>"

definition startIndex :: "int \<Rightarrow> int" where
  "startIndex currentPage = (currentPage - 1) * int ITEMS_PER_PAGE"

definition paginatedRegistrations :: "'a list \<Rightarrow> int \<Rightarrow> 'a list" where
  "paginatedRegistrations filtered currentPage =
     slice filtered (startIndex currentPage) (startIndex currentPage + int ITEMS_PER_PAGE)"

section \<open>The dashboard (component \<open>AdminDashboard\<close>)\<close>

datatype toast = Toast_success string | Toast_error string

datatype call = Storage_remove jstring | Db_delete jstring | Db_update jstring "property list"

text \<open>
  \<open>handleDelete\<close>. \<open>removed\<close> and \<open>deleted\<close> are the outcomes of the two backend calls
  (the second is only looked at when the first did not reject); \<open>prev\<close> is the in-memory
  record set. The result is the new record set, the notification shown and the backend
  calls issued, in order. The error that the storage call resolves with is not read.
\<close>

definition handleDelete ::
  "response \<Rightarrow> response \<Rightarrow> jstring \<Rightarrow> jstring \<Rightarrow> Registration list
     \<Rightarrow> Registration list \<times> toast \<times> call list" where
  "handleDelete removed deleted ident photoUrl prev =
     (let urlParts = split_str (of_char CHR ''/'') photoUrl;
          filePath = join_str (utf16 ''/'') (slice_from urlParts (- 2))
      in case removed of
           Rejected \<Rightarrow>
             (prev, Toast_error ''Failed to delete registration'', [Storage_remove filePath])
         | Resolved _ \<Rightarrow>
             (case deleted of
                Rejected \<Rightarrow>
                  (prev, Toast_error ''Failed to delete registration'',
                   [Storage_remove filePath, Db_delete ident])
              | Resolved (Some error) \<Rightarrow>
                  (prev, Toast_error ''Failed to delete registration'',
                   [Storage_remove filePath, Db_delete ident])
              | Resolved None \<Rightarrow>
                  (filter (\<lambda>r. id_reg r \<noteq> ident) prev,
                   Toast_success ''Registration deleted successfully'',
                   [Storage_remove filePath, Db_delete ident])))"

text \<open>\<open>handleUpdate\<close>, with the outcome \<open>updated\<close> of its one backend call.\<close>

definition handleUpdate ::
  "response \<Rightarrow> jstring \<Rightarrow> property list \<Rightarrow> Registration list
     \<Rightarrow> Registration list \<times> toast \<times> call list" where
  "handleUpdate updated ident data prev =
     (case updated of
        Rejected \<Rightarrow> (prev, Toast_error ''Failed to update registration'', [Db_update ident data])
      | Resolved (Some error) \<Rightarrow>
          (prev, Toast_error ''Failed to update registration'', [Db_update ident data])
      | Resolved None \<Rightarrow>
          (map (\<lambda>r. if id_reg r = ident then spread r data else r) prev,
           Toast_success ''Registration updated successfully'', [Db_update ident data]))"

text \<open>The string of a gender value, as the sheet shows it.\<close>

fun gender_str :: "gender \<Rightarrow> jstring" where
  "gender_str male = utf16 ''male''"
| "gender_str female = utf16 ''female''"
| "gender_str other = utf16 ''other''"

text \<open>
  A row object of the export is the list of its properties, a key and a cell text each, in
  the order they were written. \<open>toLocaleDateString\<close> stands for
  \<open>new Date(created_at).toLocaleDateString()\<close>, which depends on the browser's locale.
\<close>

type_synonym row_object = "(jstring \<times> jstring) list"

definition exportData :: "(jstring \<Rightarrow> jstring) \<Rightarrow> Registration list \<Rightarrow> row_object list" where
  "exportData toLocaleDateString registrations =
     map (\<lambda>reg.
       [(utf16 ''Name'', full_name reg),
        (utf16 ''Mobile'', mobile_number reg),
        (utf16 ''Email'', email reg),
        (utf16 ''Gender'', gender_str (gender reg)),
        (utf16 ''Department'', department reg),
        (utf16 ''Address'', address reg),
        (utf16 ''Registered Date'', toLocaleDateString (created_at reg))]) registrations"

text \<open>
  \<open>XLSX.utils.json_to_sheet\<close>, \<open>book_new\<close> and \<open>book_append_sheet\<close> belong to the
  spreadsheet library, which is not part of the repository. They are modelled after the
  library's documented behaviour for a call without options: the columns of the sheet are
  the keys of the row objects in the order in which they are first met, the first row of the
  sheet holds one cell per column with the key as its text, and every row object gives one
  further row, with an empty cell where the object has no such key. A sheet is the list of
  its rows, a row the list of its cells.
\<close>

type_synonym sheet = "jstring option list list"

definition sheet_columns :: "row_object list \<Rightarrow> jstring list" where
  "sheet_columns js = rev (remdups (rev (concat (map (map fst) js))))"

definition json_to_sheet :: "row_object list \<Rightarrow> sheet" where
  "json_to_sheet js =
     (let hdr = sheet_columns js
      in map Some hdr # map (\<lambda>obj. map (map_of obj) hdr) js)"

type_synonym workbook = "(string \<times> sheet) list"

definition book_new :: workbook where
  "book_new = []"

definition book_append_sheet :: "workbook \<Rightarrow> sheet \<Rightarrow> string \<Rightarrow> workbook" where
  "book_append_sheet wb ws name = wb @ [(name, ws)]"

text \<open>
  \<open>handleExport\<close>: the name of the file written, the workbook written and the notification.
  \<open>today\<close> stands for \<open>new Date().toISOString().split("T")[0]\<close>.
\<close>

definition handleExport ::
  "(jstring \<Rightarrow> jstring) \<Rightarrow> string \<Rightarrow> Registration list \<Rightarrow> string \<times> workbook \<times> toast" where
  "handleExport toLocaleDateString today registrations =
     (let ws = json_to_sheet (exportData toLocaleDateString registrations);
          wb = book_append_sheet book_new ws ''Registrations''
      in (''registrations-'' @ today @ ''.xlsx'', wb, Toast_success ''Export completed''))"

text \<open>The seven column names of the export and the cell texts of one record, in the order
  of the properties of a row object.\<close>

definition export_columns :: "jstring list" where
  "export_columns = map utf16 [''Name'', ''Mobile'', ''Email'', ''Gender'', ''Department'', ''Address'',
     ''Registered Date'']"

definition export_row :: "(jstring \<Rightarrow> jstring) \<Rightarrow> Registration \<Rightarrow> jstring list" where
  "export_row toLocaleDateString reg =
     [full_name reg, mobile_number reg, email reg, gender_str (gender reg), department reg,
      address reg, toLocaleDateString (created_at reg)]"

section \<open>The edit dialog (\<open>components/admin/EditModal.tsx\<close>)\<close>

text \<open>
  \<open>onSubmit\<close> of the dialog, with \<open>onSave = handleUpdate\<close> as the dashboard passes it.
  \<open>registration\<close> is the record being edited (\<open>None\<close> is \<open>null\<close>, and then nothing happens),
  \<open>data\<close> the validated form values.
\<close>

definition onSubmit ::
  "response \<Rightarrow> Registration option \<Rightarrow> RegistrationFormData \<Rightarrow> Registration list
     \<Rightarrow> Registration list \<times> toast option \<times> call list" where
  "onSubmit updated registration data prev =
     (case registration of
        None \<Rightarrow> (prev, None, [])
      | Some reg \<Rightarrow>
          (case handleUpdate updated (id_reg reg)
                  [P_full_name (fullName data),
                   P_mobile_number (mobileNumber data),
                   P_email (email_form data),
                   P_gender (gender_form data),
                   P_department (department_form data),
                   P_address (address_form data)] prev of
             (regs, t, calls) \<Rightarrow> (regs, Some t, calls)))"

section \<open>The table inside the dashboard, as a transition system\<close>

text \<open>
  The state that the table reads and writes: the dashboard's record set, which the table
  receives as a property, and the table's own search text, department selection, page
  index and pending deletion. \<open>None\<close> is \<open>null\<close>.
\<close>

record table_state =
  registrations :: "Registration list"
  search :: jstring
  departmentFilter :: jstring
  currentPage :: int
  deleteId :: "jstring option"
  deletePhotoUrl :: jstring

definition initial_state :: table_state where
  "initial_state =
     \<lparr>registrations = [], search = [], departmentFilter = utf16 ''all'', currentPage = 1,
      deleteId = None, deletePhotoUrl = []\<rparr>"

definition filtered :: "table_state \<Rightarrow> Registration list" where
  "filtered st = filteredRegistrations (registrations st) (search st) (departmentFilter st)"

text \<open>
  What can happen to that state. A backend call's outcome travels with the event that
  issues the call. The record list of \<open>Fetched\<close> is the data of a successful fetch.
\<close>

datatype event =
    Search_changed jstring
  | Department_changed jstring
  | Clear_clicked
  | Previous_clicked
  | Next_clicked
  | Delete_clicked jstring jstring
  | Delete_confirmed response response
  | Delete_cancelled
  | Fetched "Registration list"
  | Edit_saved response Registration RegistrationFormData

text \<open>
  One event. The clear button exists only while a filter is set; the two page buttons
  exist only while there is more than one page, and each is disabled on the page it
  cannot leave; \<open>confirmDelete\<close> acts only on a non-empty pending identifier.
\<close>

fun step :: "event \<Rightarrow> table_state \<Rightarrow> table_state" where
  "step (Search_changed v) st = st\<lparr>search := v, currentPage := 1\<rparr>"
| "step (Department_changed v) st = st\<lparr>departmentFilter := v, currentPage := 1\<rparr>"
| "step Clear_clicked st =
     (if search st \<noteq> [] \<or> departmentFilter st \<noteq> utf16 ''all''
      then st\<lparr>search := [], departmentFilter := utf16 ''all'', currentPage := 1\<rparr>
      else st)"
| "step Previous_clicked st =
     (if totalPages (filtered st) > 1 \<and> currentPage st \<noteq> 1
      then st\<lparr>currentPage := max 1 (currentPage st - 1)\<rparr>
      else st)"
| "step Next_clicked st =
     (if totalPages (filtered st) > 1 \<and> currentPage st \<noteq> totalPages (filtered st)
      then st\<lparr>currentPage := min (totalPages (filtered st)) (currentPage st + 1)\<rparr>
      else st)"
| "step (Delete_clicked ident photoUrl) st = st\<lparr>deleteId := Some ident, deletePhotoUrl := photoUrl\<rparr>"
| "step (Delete_confirmed removed deleted) st =
     (case deleteId st of
        None \<Rightarrow> st
      | Some ident \<Rightarrow>
          if ident = [] then st
          else st\<lparr>registrations :=
                      fst (handleDelete removed deleted ident (deletePhotoUrl st) (registrations st)),
                    deleteId := None, deletePhotoUrl := []\<rparr>)"
| "step Delete_cancelled st = st\<lparr>deleteId := None\<rparr>"
| "step (Fetched data) st = st\<lparr>registrations := data\<rparr>"
| "step (Edit_saved updated reg data) st =
     st\<lparr>registrations := fst (onSubmit updated (Some reg) data (registrations st))\<rparr>"

fun run :: "event list \<Rightarrow> table_state \<Rightarrow> table_state" where
  "run [] st = st"
| "run (e # es) st = run es (step e st)"

text \<open>The events that leave the record set alone.\<close>

fun view_event :: "event \<Rightarrow> bool" where
  "view_event (Delete_confirmed removed deleted) = False"
| "view_event (Fetched data) = False"
| "view_event (Edit_saved updated reg data) = False"
| "view_event e = True"

text \<open>The page index lies between 1 and the last page, where an empty view still has its
  page 1.\<close>

definition page_in_range :: "table_state \<Rightarrow> bool" where
  "page_in_range st =
     (1 \<le> currentPage st \<and> currentPage st \<le> max 1 (totalPages (filtered st)))"

text \<open>The export button of the table: \<open>onExport\<close> is the dashboard's \<open>handleExport\<close>, which
  reads the dashboard's record set.\<close>

definition onExport :: "(jstring \<Rightarrow> jstring) \<Rightarrow> string \<Rightarrow> table_state \<Rightarrow> string \<times> workbook \<times> toast" where
  "onExport toLocaleDateString today st = handleExport toLocaleDateString today (registrations st)"

text \<open>A record set for examples: \<open>n\<close> records with the identifiers \<open>x\<close>, \<open>xx\<close>, \<open>xxx\<close>, ...\<close>

definition sample :: "string \<Rightarrow> string \<Rightarrow> string \<Rightarrow> Registration" where
  "sample ident name dept =
     \<lparr>id_reg = utf16 ident, full_name = utf16 name, mobile_number = utf16 ''9876543210'',
      email = utf16 ''user@mail.org'', gender = other, department = utf16 dept,
      address = utf16 ''1 Long Street, Town'',
      photo_url = utf16 ''https://h/o/registrations/p.png'',
      created_at = utf16 ''2024-01-01T00:00:00Z'', updated_at = utf16 ''2024-01-01T00:00:00Z''\<rparr>"

definition samples :: "nat \<Rightarrow> Registration list" where
  "samples n = map (\<lambda>i. sample (replicate (Suc i) CHR ''x'') ''Ann'' ''Sales'') [0..<n]"

text \<open>An event sequence for examples: eleven records are fetched, the next button leads to
  page 2, and the record shown there, the eleventh, is deleted.\<close>

definition delete_on_last_page :: "event list" where
  "delete_on_last_page =
     [Fetched (samples 11), Next_clicked,
      Delete_clicked (utf16 ''xxxxxxxxxxx'') (utf16 ''https://h/o/registrations/p.png''),
      Delete_confirmed (Resolved None) (Resolved None)]"

section \<open>The row deletion of the hosted store\<close>

text \<open>
  \<open>supabase.from("registrations").delete().eq("id", id)\<close> is carried out by the hosted store,
  which is not part of the repository. It is modelled after the documented behaviour of a
  filtered delete: the rows that match the filter are removed and the call resolves without
  an error, whether or not any row matched. \<open>fault\<close> stands for a failure of the transport
  or of the permission check; it leaves the rows alone and comes back as the error of the
  response. The result is the rows of the store after the call and the response.
\<close>

definition store_delete ::
  "string option \<Rightarrow> Registration list \<Rightarrow> jstring \<Rightarrow> Registration list \<times> response" where
  "store_delete fault rows ident =
     (case fault of
        Some error \<Rightarrow> (rows, Resolved (Some error))
      | None \<Rightarrow> (filter (\<lambda>r. id_reg r \<noteq> ident) rows, Resolved None))"

section \<open>The filter in the words of the specification\<close>

text \<open>
  Two strings are the same up to letter case; \<open>s\<close> is a case-insensitive substring of \<open>a\<close>
  when some substring of \<open>a\<close> is \<open>s\<close> up to letter case (\<^const>\<open>sublist\<close> is the contiguous
  substring relation); a record matches a search string and a department selection when
  the search string is found in its name, phone or email and the department fits.
\<close>

definition same_ignoring_case :: "jstring \<Rightarrow> jstring \<Rightarrow> bool" where
  "same_ignoring_case s t = (toLowerCase s = toLowerCase t)"

definition ci_substring :: "jstring \<Rightarrow> jstring \<Rightarrow> bool" where
  "ci_substring s a = (\<exists>t. sublist t a \<and> same_ignoring_case t s)"

definition matches_spec :: "jstring \<Rightarrow> jstring \<Rightarrow> Registration \<Rightarrow> bool" where
  "matches_spec s d r =
     ((ci_substring s (full_name r) \<or> sublist s (mobile_number r) \<or> ci_substring s (email r))
      \<and> (d = utf16 ''all'' \<or> department r = d))"

text \<open>
  The same with the test on lower-cased strings in place of the case-insensitive substring:
  the lower-cased search string is a substring of the lower-cased name or email.
\<close>

definition matches_lowered :: "jstring \<Rightarrow> jstring \<Rightarrow> Registration \<Rightarrow> bool" where
  "matches_lowered s d r =
     ((sublist (toLowerCase s) (toLowerCase (full_name r)) \<or> sublist s (mobile_number r)
       \<or> sublist (toLowerCase s) (toLowerCase (email r)))
      \<and> (d = utf16 ''all'' \<or> department r = d))"

text \<open>The strings of Basic Latin and Latin-1, and the small letter of one of their code
  units.\<close>

definition latin1 :: "jstring \<Rightarrow> bool" where
  "latin1 s = list_all (\<lambda>c. c < 256) s"

definition lower_latin1 :: "code_unit \<Rightarrow> code_unit" where
  "lower_latin1 c =
     (if (0x41 \<le> c \<and> c \<le> 0x5A) \<or> (0xC0 \<le> c \<and> c \<le> 0xD6) \<or> (0xD8 \<le> c \<and> c \<le> 0xDE)
      then c + 32 else c)"

section \<open>Properties: photo acceptance\<close>

lemma MAX_FILE_SIZE_value: "MAX_FILE_SIZE = 2097152"
  by (simp add: MAX_FILE_SIZE_def)

text \<open>
  C4. The photo check accepts a candidate file exactly when its declared media type is one of
  image/jpeg, image/jpg, image/png and its size is at most 2 MiB = 2,097,152 bytes, the
  bound included. So a file of exactly 2,097,152 bytes of an accepted type passes, a png of
  2.1 MiB (2,202,010 bytes) fails, and a gif fails whatever its size.
\<close>

theorem validatePhoto_accepts_iff:
  "(fst (validatePhoto (Some f)) \<longleftrightarrow>
      file_type f \<in> {''image/jpeg'', ''image/jpg'', ''image/png''} \<and> file_size f \<le> 2097152)
   \<and> fst (validatePhoto (Some \<lparr>file_name = n1, file_type = ''image/jpeg'', file_size = 2097152\<rparr>))
   \<and> \<not> fst (validatePhoto (Some \<lparr>file_name = n2, file_type = ''image/png'', file_size = 2202010\<rparr>))
   \<and> \<not> fst (validatePhoto (Some \<lparr>file_name = n3, file_type = ''image/gif'', file_size = k\<rparr>))"
  by (simp add: validatePhoto_def ACCEPTED_IMAGE_TYPES_def MAX_FILE_SIZE_def)

section \<open>Properties: strings\<close>

lemmas char_eval = isWhiteSpace_def isDigit_def

lemmas utf16_eval = utf16_def toLowerCase_def lower_unit_def cased_def case_ignorable_def

lemma utf16_eq_iff: "utf16 a = utf16 b \<longleftrightarrow> a = b"
  by (simp add: utf16_def inj_map_eq_map inj_on_def)

lemma utf16_eq_Nil: "utf16 a = [] \<longleftrightarrow> a = []"
  by (simp add: utf16_def)

lemma includes_str_sublist: "includes_str a b \<longleftrightarrow> sublist b a"
  by (induction a) (simp_all add: sublist_Cons_right)

lemma sublist_map_iff:
  "sublist (map f s) (map f a) \<longleftrightarrow> (\<exists>t. sublist t a \<and> map f t = map f s)"
proof
  assume "sublist (map f s) (map f a)"
  then obtain ps ss where "map f a = ps @ map f s @ ss"
    by (auto simp: sublist_def)
  then obtain ps' r where a: "a = ps' @ r" and r: "map f s @ ss = map f r"
    unfolding map_eq_append_conv by blast
  from r obtain t ss' where "r = t @ ss'" and "map f s = map f t"
    unfolding append_eq_map_conv by blast
  with a have "sublist t a \<and> map f t = map f s"
    by (auto simp: sublist_def)
  then show "\<exists>t. sublist t a \<and> map f t = map f s" ..
next
  assume "\<exists>t. sublist t a \<and> map f t = map f s"
  then obtain t ps ss where "a = ps @ t @ ss" and "map f t = map f s"
    by (auto simp: sublist_def)
  then show "sublist (map f s) (map f a)"
    by (auto simp: sublist_def)
qed

lemma lower_from_latin1: "latin1 s \<Longrightarrow> lower_from b s = map lower_latin1 s"
  by (induction s arbitrary: b) (auto simp: latin1_def lower_unit_def lower_latin1_def)

lemma toLowerCase_latin1: "latin1 s \<Longrightarrow> toLowerCase s = map lower_latin1 s"
  by (simp add: toLowerCase_def lower_from_latin1)

lemma latin1_sublist: "sublist t a \<Longrightarrow> latin1 a \<Longrightarrow> latin1 t"
  by (auto simp: sublist_def latin1_def)

lemma sublist_lower_ci:
  assumes "latin1 s" and "latin1 a"
  shows "sublist (toLowerCase s) (toLowerCase a) \<longleftrightarrow> ci_substring s a"
proof -
  have "sublist (toLowerCase s) (toLowerCase a)
      \<longleftrightarrow> (\<exists>t. sublist t a \<and> map lower_latin1 t = map lower_latin1 s)"
    by (simp add: toLowerCase_latin1 assms sublist_map_iff)
  also have "\<dots> \<longleftrightarrow> (\<exists>t. sublist t a \<and> toLowerCase t = toLowerCase s)"
  proof -
    have "map lower_latin1 t = map lower_latin1 s \<longleftrightarrow> toLowerCase t = toLowerCase s"
      if "sublist t a" for t
      using that assms by (simp add: toLowerCase_latin1 latin1_sublist)
    then show ?thesis by blast
  qed
  finally show ?thesis
    by (simp add: ci_substring_def same_ignoring_case_def)
qed

lemma match_digits_iff: "match_digits n s \<longleftrightarrow> length s = n \<and> list_all isDigit s"
proof (induction n arbitrary: s)
  case 0
  then show ?case by auto
next
  case (Suc n)
  then show ?case by (cases s) auto
qed

section \<open>Properties: mobile number\<close>

text \<open>
  C5. The mobile-number rule accepts an input exactly when the trimmed input consists of
  exactly 10 ASCII digits: "1234567890" is accepted, and "123456789", "12345678901" and
  "123-456-7890" are rejected.
\<close>

theorem mobileNumber_accepted_iff:
  "((\<exists>v. mobileNumber_schema s = Inr v) \<longleftrightarrow>
      length (trim s) = 10 \<and> (\<forall>c \<in> set (trim s). isDigit c))
   \<and> mobileNumber_schema ''1234567890'' = Inr ''1234567890''
   \<and> mobileNumber_schema ''123456789'' = Inl ''Mobile number must be exactly 10 digits''
   \<and> mobileNumber_schema ''12345678901'' = Inl ''Mobile number must be exactly 10 digits''
   \<and> mobileNumber_schema ''123-456-7890'' = Inl ''Mobile number must be exactly 10 digits''"
proof -
  have "(\<exists>v. mobileNumber_schema s = Inr v) \<longleftrightarrow>
      length (trim s) = 10 \<and> (\<forall>c \<in> set (trim s). isDigit c)"
    by (simp add: mobileNumber_schema_def match_digits_iff list_all_iff Let_def)
  moreover have "mobileNumber_schema ''1234567890'' = Inr ''1234567890''"
    by (simp add: mobileNumber_schema_def match_digits_iff trim_def char_eval)
  moreover have "mobileNumber_schema ''123456789'' = Inl ''Mobile number must be exactly 10 digits''"
    by (simp add: mobileNumber_schema_def match_digits_iff trim_def char_eval)
  moreover have "mobileNumber_schema ''12345678901'' = Inl ''Mobile number must be exactly 10 digits''"
    by (simp add: mobileNumber_schema_def match_digits_iff trim_def char_eval)
  moreover have "mobileNumber_schema ''123-456-7890'' = Inl ''Mobile number must be exactly 10 digits''"
    by (simp add: mobileNumber_schema_def match_digits_iff trim_def char_eval)
  ultimately show ?thesis by simp
qed

text \<open>The rule on an input with white space around ten digits, and on one with a letter.\<close>

theorem mobileNumber_accepted_iff_witness:
  "(\<exists>v. mobileNumber_schema '' 9876543210  '' = Inr v)
   \<and> length (trim '' 9876543210  '') = 10
   \<and> \<not> (\<exists>v. mobileNumber_schema ''98765x3210'' = Inr v)"
proof -
  have "trim '' 9876543210  '' = ''9876543210''" and "trim ''98765x3210'' = ''98765x3210''"
    by (simp_all add: trim_def char_eval)
  then show ?thesis
    using mobileNumber_accepted_iff [of "'' 9876543210  ''"]
      mobileNumber_accepted_iff [of "''98765x3210''"]
    by (simp add: char_eval)
qed

section \<open>Properties: filtering\<close>

text \<open>
  C1, as the claim states it, fails. Lower-casing a whole string is not the same as comparing
  up to letter case: the record named by the three Greek capitals omicron, sigma, alpha
  (U+039F U+03A3 U+0391) has the search string omicron, sigma (U+039F U+03A3) as a plain
  substring of its name, so it matches in the words of the claim. But the sigma that ends
  the search string is lower-cased to the final sigma U+03C2 and the sigma inside the name
  to U+03C3, and the filter drops the record.
\<close>

theorem filteredRegistrations_sigma_counterexample:
  "matches_spec [0x39F, 0x3A3] (utf16 ''all'')
      ((sample ''1'' ''Ann'' ''Sales'')\<lparr>full_name := [0x39F, 0x3A3, 0x391]\<rparr>)
   \<and> filteredRegistrations [(sample ''1'' ''Ann'' ''Sales'')\<lparr>full_name := [0x39F, 0x3A3, 0x391]\<rparr>]
        [0x39F, 0x3A3] (utf16 ''all'') = []"
proof -
  have "sublist [0x39F, 0x3A3] ([0x39F, 0x3A3] @ [0x391 :: nat])"
    by (rule sublist_append_rightI)
  then have "ci_substring [0x39F, 0x3A3] [0x39F, 0x3A3, 0x391]"
    unfolding ci_substring_def same_ignoring_case_def by auto
  then have "matches_spec [0x39F, 0x3A3] (utf16 ''all'')
      ((sample ''1'' ''Ann'' ''Sales'')\<lparr>full_name := [0x39F, 0x3A3, 0x391]\<rparr>)"
    by (simp add: matches_spec_def)
  moreover have "filteredRegistrations
      [(sample ''1'' ''Ann'' ''Sales'')\<lparr>full_name := [0x39F, 0x3A3, 0x391]\<rparr>]
      [0x39F, 0x3A3] (utf16 ''all'') = []"
    by (simp add: filteredRegistrations_def sample_def utf16_eval)
  ultimately show ?thesis by simp
qed

text \<open>
  C1, amended. For every record set, search string s and department selection d, the
  filtered view consists of exactly the records for which (the lower-cased s is a substring
  of the lower-cased name, or s is a substring of the phone, or the lower-cased s is a
  substring of the lower-cased email) and (d is "all" or the department equals d), in their
  original relative order; lower-casing is that of the whole string. When s, the name and
  the email consist of code units of Basic Latin and Latin-1, this is the same as: s is a
  case-insensitive substring of the name or of the email, or a substring of the phone, and
  the department fits.
\<close>

theorem filteredRegistrations_lowered:
  "filteredRegistrations regs s d = filter (matches_lowered s d) regs
   \<and> subseq (filteredRegistrations regs s d) regs
   \<and> set (filteredRegistrations regs s d) = {r \<in> set regs. matches_lowered s d r}
   \<and> (latin1 s \<and> latin1 (full_name r) \<and> latin1 (email r) \<longrightarrow>
        matches_lowered s d r = matches_spec s d r)"
proof -
  have "filteredRegistrations regs s d = filter (matches_lowered s d) regs"
    unfolding filteredRegistrations_def matches_lowered_def Let_def
    by (simp add: includes_str_sublist)
  moreover have "matches_lowered s d r = matches_spec s d r"
    if "latin1 s" "latin1 (full_name r)" "latin1 (email r)"
    using that by (simp add: matches_lowered_def matches_spec_def sublist_lower_ci)
  ultimately show ?thesis by simp
qed

text \<open>The filter on the two records Ann (Sales) and Ben (Engineering): searching "an" with
  all departments gives Ann only, the empty search with department Engineering gives Ben
  only.\<close>

theorem filteredRegistrations_lowered_witness:
  "latin1 (utf16 ''an'') \<and> latin1 (full_name (sample ''1'' ''Ann'' ''Sales''))
   \<and> latin1 (email (sample ''1'' ''Ann'' ''Sales''))
   \<and> filteredRegistrations [sample ''1'' ''Ann'' ''Sales'', sample ''2'' ''Ben'' ''Engineering'']
        (utf16 ''an'') (utf16 ''all'') = [sample ''1'' ''Ann'' ''Sales'']
   \<and> matches_spec (utf16 ''an'') (utf16 ''all'') (sample ''1'' ''Ann'' ''Sales'')
   \<and> filter (matches_lowered [] (utf16 ''Engineering''))
        [sample ''1'' ''Ann'' ''Sales'', sample ''2'' ''Ben'' ''Engineering'']
      = [sample ''2'' ''Ben'' ''Engineering'']"
proof -
  let ?ann = "sample ''1'' ''Ann'' ''Sales''"
  let ?regs = "[sample ''1'' ''Ann'' ''Sales'', sample ''2'' ''Ben'' ''Engineering'']"
  have l: "latin1 (utf16 ''an'')" "latin1 (full_name ?ann)" "latin1 (email ?ann)"
    by (simp_all add: latin1_def sample_def utf16_def)
  have 1: "filteredRegistrations ?regs (utf16 ''an'') (utf16 ''all'') = [?ann]"
    by (simp add: filteredRegistrations_def sample_def utf16_eval)
  have 2: "filteredRegistrations ?regs [] (utf16 ''Engineering'') = [sample ''2'' ''Ben'' ''Engineering'']"
    by (simp add: filteredRegistrations_def sample_def utf16_eval)
  note t = filteredRegistrations_lowered [of ?regs "utf16 ''an''" "utf16 ''all''" ?ann]
  have "?ann \<in> set (filteredRegistrations ?regs (utf16 ''an'') (utf16 ''all''))"
    unfolding 1 by simp
  then have "?ann \<in> {r \<in> set ?regs. matches_lowered (utf16 ''an'') (utf16 ''all'') r}"
    unfolding t [THEN conjunct2, THEN conjunct2, THEN conjunct1] .
  then have "matches_lowered (utf16 ''an'') (utf16 ''all'') ?ann"
    by blast
  with t [THEN conjunct2, THEN conjunct2, THEN conjunct2] l
  have 3: "matches_spec (utf16 ''an'') (utf16 ''all'') ?ann"
    by blast
  show ?thesis
    using l 1 2 3 filteredRegistrations_lowered [of ?regs "[]" "utf16 ''Engineering''" ?ann]
    by simp
qed

text \<open>
  C9. Filtering with the empty search string and the department selection "all" is the
  identity: the filtered view is the whole record set, in the same order.
\<close>

theorem filter_nothing_identity: "filteredRegistrations regs [] (utf16 ''all'') = regs"
  by (simp add: filteredRegistrations_def includes_str_sublist toLowerCase_def)

section \<open>Properties: pagination\<close>

lemma totalPages_div: "totalPages xs = (int (length xs) + 9) div 10"
proof -
  have "totalPages xs = \<lceil>real_of_int (int (length xs)) / real_of_int 10\<rceil>"
    by (simp add: totalPages_def ITEMS_PER_PAGE_def)
  also have "\<dots> = - (- int (length xs) div 10)"
    by (rule ceiling_divide_eq_div)
  also have "\<dots> = (int (length xs) + 9) div 10"
    by presburger
  finally show ?thesis .
qed

lemma take_drop_nth: "take k (drop a xs) = map ((!) xs) [a ..< min (a + k) (length xs)]"
  by (rule nth_equalityI) auto

lemma paginated_take_drop:
  assumes "1 \<le> p"
  shows "paginatedRegistrations xs p = take 10 (drop (nat ((p - 1) * 10)) xs)"
proof -
  have "0 \<le> (p - 1) * 10" using assms by simp
  then show ?thesis
    by (auto simp: paginatedRegistrations_def startIndex_def ITEMS_PER_PAGE_def slice_def Let_def
        min_def)
qed

text \<open>
  C3. For a filtered list of length n and a page index p (page indices start at 1), the
  number of pages is the ceiling of n/10, that is the integer t with 10(t-1) < n <= 10t, and
  page p shows exactly the records at the positions (p-1)*10+1 through min(p*10, n),
  counted from 1. In particular 25 records give 3 pages, and page 3 shows the records 21
  through 25.
\<close>

theorem pagination_pages:
  assumes "1 \<le> p"
  shows "10 * (totalPages xs - 1) < int (length xs) \<and> int (length xs) \<le> 10 * totalPages xs
    \<and> paginatedRegistrations xs p =
        map (\<lambda>j. xs ! (j - 1)) [nat ((p - 1) * 10 + 1) ..< Suc (min (nat (p * 10)) (length xs))]
    \<and> (length xs = 25 \<longrightarrow> totalPages xs = 3 \<and> paginatedRegistrations xs 3 = drop 20 xs)"
proof -
  have pages: "10 * (totalPages xs - 1) < int (length xs) \<and> int (length xs) \<le> 10 * totalPages xs"
    unfolding totalPages_div by presburger
  have "paginatedRegistrations xs p =
      map ((!) xs) [nat ((p - 1) * 10) ..< min (nat ((p - 1) * 10) + 10) (length xs)]"
    by (simp only: paginated_take_drop [OF assms] take_drop_nth)
  also have "nat ((p - 1) * 10) + 10 = nat (p * 10)"
    using assms by (simp add: nat_add_distrib algebra_simps)
  also have "map ((!) xs) [nat ((p - 1) * 10) ..< min (nat (p * 10)) (length xs)] =
      map (\<lambda>j. xs ! (j - 1)) (map Suc [nat ((p - 1) * 10) ..< min (nat (p * 10)) (length xs)])"
    by (simp add: comp_def)
  also have "map Suc [nat ((p - 1) * 10) ..< min (nat (p * 10)) (length xs)] =
      [nat ((p - 1) * 10 + 1) ..< Suc (min (nat (p * 10)) (length xs))]"
    using assms by (simp add: map_Suc_upt nat_add_distrib Suc_nat_eq_nat_zadd1)
  finally have page: "paginatedRegistrations xs p =
      map (\<lambda>j. xs ! (j - 1)) [nat ((p - 1) * 10 + 1) ..< Suc (min (nat (p * 10)) (length xs))]" .
  have "length xs = 25 \<longrightarrow> totalPages xs = 3 \<and> paginatedRegistrations xs 3 = drop 20 xs"
    by (simp add: totalPages_div paginated_take_drop)
  with pages page show ?thesis by simp
qed

text \<open>The list of the numbers 1 to 25: three pages, page 3 holds 21 to 25, and a page 4
  would be empty.\<close>

theorem pagination_pages_witness:
  "(1::int) \<le> 3 \<and> totalPages [1 ..< 26 :: nat] = 3
   \<and> paginatedRegistrations [1 ..< 26 :: nat] 3 = [21, 22, 23, 24, 25]
   \<and> paginatedRegistrations [1 ..< 26 :: nat] 4 = []"
proof -
  have "length [1 ..< 26 :: nat] = 25" by simp
  moreover have "drop 20 [1 ..< 26 :: nat] = [21, 22, 23, 24, 25]"
    by (simp add: drop_upt upt_conv_Cons)
  moreover have "paginatedRegistrations [1 ..< 26 :: nat] 4 = []"
    by (simp add: paginated_take_drop)
  ultimately show ?thesis
    using pagination_pages [of 3 "[1 ..< 26 :: nat]"] by simp
qed

section \<open>Properties: the page index\<close>

lemma filtered_unfiltered:
  "search st = [] \<Longrightarrow> departmentFilter st = utf16 ''all'' \<Longrightarrow> filtered st = registrations st"
  by (simp add: filtered_def filteredRegistrations_def includes_str_sublist toLowerCase_def)

lemma step_page_lower: "1 \<le> currentPage st \<Longrightarrow> 1 \<le> currentPage (step e st)"
  by (cases e) (auto split: option.splits)

lemma run_page_lower: "1 \<le> currentPage st \<Longrightarrow> 1 \<le> currentPage (run evs st)"
  by (induction evs arbitrary: st) (simp_all add: step_page_lower)

lemma step_view_in_range:
  assumes "view_event e" and "page_in_range st"
  shows "page_in_range (step e st)"
proof (cases e)
  case Previous_clicked
  with assms show ?thesis by (auto simp: page_in_range_def filtered_def)
next
  case Next_clicked
  with assms show ?thesis by (auto simp: page_in_range_def filtered_def)
next
  case Clear_clicked
  with assms show ?thesis by (auto simp: page_in_range_def filtered_def)
qed (use assms in \<open>auto simp: page_in_range_def filtered_def\<close>)

lemma run_view_in_range:
  "list_all view_event evs \<Longrightarrow> page_in_range st \<Longrightarrow> page_in_range (run evs st)"
  by (induction evs arbitrary: st) (simp_all add: step_view_in_range)

text \<open>
  What holds of the page index: it is at least 1 in every reachable state; it is in range
  after a fetch into the initial state; and the events that leave the record set alone
  (the page buttons, a change of the search text or of the department selection, the clear
  button, opening and cancelling the delete dialog) keep it in range.
\<close>

lemma page_in_range_kept:
  "1 \<le> currentPage (run evs initial_state)
   \<and> page_in_range (step (Fetched regs) initial_state)
   \<and> (page_in_range st \<and> list_all view_event vs \<longrightarrow> page_in_range (run vs st))
   \<and> currentPage (step (Search_changed v) st) = 1
   \<and> currentPage (step (Department_changed v) st) = 1"
proof -
  have "1 \<le> currentPage (run evs initial_state)"
    by (rule run_page_lower) (simp add: initial_state_def)
  moreover have "page_in_range (step (Fetched regs) initial_state)"
    by (simp add: page_in_range_def initial_state_def)
  ultimately show ?thesis
    using run_view_in_range by auto
qed

lemma length_samples: "length (samples n) = n"
  by (simp add: samples_def)

lemma samples_without_last:
  "filter (\<lambda>r. id_reg r \<noteq> utf16 ''xxxxxxxxxxx'') (samples 11) = samples 10"
  by (simp add: samples_def sample_def upt_conv_Cons utf16_eq_iff)

lemma run_delete_on_last_page:
  "run delete_on_last_page initial_state
     = initial_state\<lparr>registrations := samples 10, currentPage := 2\<rparr>"
  by (simp add: delete_on_last_page_def initial_state_def filtered_unfiltered totalPages_div
      length_samples handleDelete_def Let_def samples_without_last utf16_eq_Nil)

text \<open>
  C2. The claim asks that no sequence of operations, deleting records included, leaves the
  page index above the last page of the current filtered view. The code does not keep it:
  nothing re-clamps the page index when the record set shrinks. With eleven records fetched,
  the next button leads to page 2, which shows the eleventh record. After that record is
  deleted, ten records and one page are left, the page index is still 2, so it is out of
  range; the page shown is empty although ten records pass the filter, and the page
  buttons, which exist only while there is more than one page, do nothing.
\<close>

theorem page_index_after_delete:
  "currentPage (run delete_on_last_page initial_state) = 2
   \<and> length (filtered (run delete_on_last_page initial_state)) = 10
   \<and> totalPages (filtered (run delete_on_last_page initial_state)) = 1
   \<and> \<not> page_in_range (run delete_on_last_page initial_state)
   \<and> paginatedRegistrations (filtered (run delete_on_last_page initial_state))
        (currentPage (run delete_on_last_page initial_state)) = []
   \<and> step Previous_clicked (run delete_on_last_page initial_state)
        = run delete_on_last_page initial_state
   \<and> step Next_clicked (run delete_on_last_page initial_state)
        = run delete_on_last_page initial_state"
proof -
  let ?st = "initial_state\<lparr>registrations := samples 10, currentPage := 2\<rparr>"
  have f: "filtered ?st = samples 10"
    by (simp add: filtered_unfiltered initial_state_def)
  have t: "totalPages (samples 10) = 1"
    by (simp add: totalPages_div length_samples)
  have p: "paginatedRegistrations (samples 10) 2 = []"
    by (simp add: paginated_take_drop length_samples)
  show ?thesis
    unfolding run_delete_on_last_page
    by (simp add: f t p length_samples page_in_range_def)
qed

section \<open>Properties: delete\<close>

lemma filePath_sample:
  "join_str (utf16 ''/'') (slice_from (split_str 47 (utf16 ''https://h/o/registrations/p.png'')) (- 2))
   = utf16 ''registrations/p.png''"
  by (simp add: utf16_def slice_from_def slice_def)

text \<open>
  C6, as the claim states it, fails for the case it names, an identifier that no longer
  matches any row. The code does not look at the number of rows deleted, and the store
  answers such a delete without an error. With the row already gone from the store and the
  record still in memory, the operation is reported as successful and the record leaves the
  in-memory set.
\<close>

theorem handleDelete_no_row_counterexample:
  "snd (store_delete None [] (utf16 ''x'')) = Resolved None
   \<and> handleDelete (Resolved None) (snd (store_delete None [] (utf16 ''x''))) (utf16 ''x'')
        (utf16 ''https://h/o/registrations/p.png'') (samples 1)
      = ([], Toast_success ''Registration deleted successfully'',
         [Storage_remove (utf16 ''registrations/p.png''), Db_delete (utf16 ''x'')])
   \<and> samples 1 \<noteq> []"
  by (simp add: store_delete_def handleDelete_def filePath_sample samples_def sample_def)

text \<open>
  C6, amended. If the row-deletion call of a delete operation reports failure (it resolves
  with an error or it rejects), then the operation is reported as failed and the in-memory
  record set is left as it was, also when the photo removal, which is issued first, has
  already completed. Deleting an identifier that matches no row of the store is not such a
  failure: the store leaves its rows as they are and answers without an error, the
  operation is reported as successful and the records with that identifier leave the
  in-memory set.
\<close>

theorem handleDelete_outcomes:
  "(deleted \<noteq> Resolved None \<longrightarrow>
      fst (handleDelete removed deleted ident photoUrl prev) = prev
      \<and> fst (snd (handleDelete removed deleted ident photoUrl prev))
          = Toast_error ''Failed to delete registration''
      \<and> handleDelete (Resolved x) deleted ident photoUrl prev
          = (prev, Toast_error ''Failed to delete registration'',
             [Storage_remove
                (join_str (utf16 ''/'') (slice_from (split_str (of_char CHR ''/'') photoUrl) (- 2))),
              Db_delete ident])
      \<and> registrations (step (Delete_confirmed removed deleted) st) = registrations st)
   \<and> ((\<forall>r \<in> set rows. id_reg r \<noteq> ident) \<longrightarrow>
      store_delete None rows ident = (rows, Resolved None)
      \<and> handleDelete (Resolved x) (snd (store_delete None rows ident)) ident photoUrl prev
          = (filter (\<lambda>r. id_reg r \<noteq> ident) prev,
             Toast_success ''Registration deleted successfully'',
             [Storage_remove
                (join_str (utf16 ''/'') (slice_from (split_str (of_char CHR ''/'') photoUrl) (- 2))),
              Db_delete ident]))"
proof -
  have 1: "handleDelete (Resolved x) deleted ident photoUrl prev
        = (prev, Toast_error ''Failed to delete registration'',
           [Storage_remove
              (join_str (utf16 ''/'') (slice_from (split_str (of_char CHR ''/'') photoUrl) (- 2))),
            Db_delete ident])"
    if "deleted \<noteq> Resolved None" for x ident photoUrl prev
    using that by (simp add: handleDelete_def Let_def split: awaited.splits option.splits)
  have 2: "fst (handleDelete removed deleted ident photoUrl prev) = prev
    \<and> fst (snd (handleDelete removed deleted ident photoUrl prev))
        = Toast_error ''Failed to delete registration''"
    if "deleted \<noteq> Resolved None" for ident photoUrl prev
    using that by (cases removed) (simp_all add: 1, simp add: handleDelete_def)
  have 3: "registrations (step (Delete_confirmed removed deleted) st) = registrations st"
    if "deleted \<noteq> Resolved None"
    using that by (simp add: 2 split: option.splits)
  have 4: "store_delete None rows ident = (rows, Resolved None)"
    if "\<forall>r \<in> set rows. id_reg r \<noteq> ident"
    using that by (simp add: store_delete_def)
  have 5: "handleDelete (Resolved x) (Resolved None) ident photoUrl prev
        = (filter (\<lambda>r. id_reg r \<noteq> ident) prev,
           Toast_success ''Registration deleted successfully'',
           [Storage_remove
              (join_str (utf16 ''/'') (slice_from (split_str (of_char CHR ''/'') photoUrl) (- 2))),
            Db_delete ident])"
    by (simp add: handleDelete_def)
  from 1 2 3 4 5 show ?thesis by simp
qed

text \<open>Two records in memory. First the photo is removed and the row deletion comes back
  with a transport error: a failure notification, both records still in memory. Then the
  identifier of a row that the store no longer has: no error, a success notification.\<close>

theorem handleDelete_outcomes_witness:
  "Resolved (Some ''Failed to fetch'') \<noteq> (Resolved None :: response)
   \<and> handleDelete (Resolved None) (Resolved (Some ''Failed to fetch'')) (utf16 ''x'')
        (utf16 ''https://h/o/registrations/p.png'') (samples 2)
      = (samples 2, Toast_error ''Failed to delete registration'',
         [Storage_remove (utf16 ''registrations/p.png''), Db_delete (utf16 ''x'')])
   \<and> store_delete None [] (utf16 ''x'') = ([], Resolved None)
   \<and> fst (snd (handleDelete (Resolved None) (snd (store_delete None [] (utf16 ''x'')))
        (utf16 ''x'') (utf16 ''https://h/o/registrations/p.png'') (samples 2)))
      = Toast_success ''Registration deleted successfully''"
  using handleDelete_outcomes [of "Resolved (Some ''Failed to fetch'')" "Resolved None" "utf16 ''x''"
      "utf16 ''https://h/o/registrations/p.png''" "samples 2" None initial_state "[]"]
  by (simp add: filePath_sample store_delete_def)

section \<open>Properties: edit\<close>

text \<open>
  C7. After a successful save of the edit dialog for the record with identifier id, the
  in-memory record set has the same length; every record with another identifier is
  unchanged; and a record with the identifier id has its six editable fields (full name,
  mobile number, email, gender, department, address) set to the validated form values and
  is otherwise unchanged, in particular in its identifier, photo URL and creation
  timestamp.
\<close>

theorem onSubmit_frame:
  "length (fst (onSubmit (Resolved None) (Some reg) data prev)) = length prev
   \<and> (\<forall>i < length prev.
        (id_reg (prev ! i) \<noteq> id_reg reg \<longrightarrow>
           fst (onSubmit (Resolved None) (Some reg) data prev) ! i = prev ! i)
      \<and> (id_reg (prev ! i) = id_reg reg \<longrightarrow>
           fst (onSubmit (Resolved None) (Some reg) data prev) ! i
             = (prev ! i)\<lparr>full_name := fullName data, mobile_number := mobileNumber data,
                  email := email_form data, gender := gender_form data,
                  department := department_form data, address := address_form data\<rparr>
           \<and> id_reg (fst (onSubmit (Resolved None) (Some reg) data prev) ! i) = id_reg (prev ! i)
           \<and> photo_url (fst (onSubmit (Resolved None) (Some reg) data prev) ! i) = photo_url (prev ! i)
           \<and> created_at (fst (onSubmit (Resolved None) (Some reg) data prev) ! i) = created_at (prev ! i)
           \<and> updated_at (fst (onSubmit (Resolved None) (Some reg) data prev) ! i) = updated_at (prev ! i)))"
  by (simp add: onSubmit_def handleUpdate_def spread_def)

text \<open>Two records in memory, the second one edited.\<close>

theorem onSubmit_frame_witness:
  "fst (onSubmit (Resolved None) (Some (sample ''xx'' ''Ann'' ''Sales''))
      \<lparr>fullName = utf16 ''Bob Roy'', mobileNumber = utf16 ''0123456789'',
        email_form = utf16 ''bob@mail.org'', gender_form = male,
        department_form = utf16 ''Legal'', address_form = utf16 ''22 Short Lane, City''\<rparr>
      (samples 2)) ! 0 = sample ''x'' ''Ann'' ''Sales''
   \<and> fst (onSubmit (Resolved None) (Some (sample ''xx'' ''Ann'' ''Sales''))
      \<lparr>fullName = utf16 ''Bob Roy'', mobileNumber = utf16 ''0123456789'',
        email_form = utf16 ''bob@mail.org'', gender_form = male,
        department_form = utf16 ''Legal'', address_form = utf16 ''22 Short Lane, City''\<rparr>
      (samples 2)) ! 1
      = (sample ''xx'' ''Ann'' ''Sales'')
          \<lparr>full_name := utf16 ''Bob Roy'', mobile_number := utf16 ''0123456789'',
            email := utf16 ''bob@mail.org'', gender := male, department := utf16 ''Legal'',
            address := utf16 ''22 Short Lane, City''\<rparr>"
proof -
  let ?reg = "sample ''xx'' ''Ann'' ''Sales''"
  let ?data = "\<lparr>fullName = utf16 ''Bob Roy'', mobileNumber = utf16 ''0123456789'',
        email_form = utf16 ''bob@mail.org'', gender_form = male,
        department_form = utf16 ''Legal'', address_form = utf16 ''22 Short Lane, City''\<rparr>"
  have s2: "samples 2 = [sample ''x'' ''Ann'' ''Sales'', sample ''xx'' ''Ann'' ''Sales'']"
    by (simp add: samples_def upt_conv_Cons)
  have ids: "id_reg (sample ''x'' ''Ann'' ''Sales'') \<noteq> id_reg ?reg" "id_reg ?reg = utf16 ''xx''"
    by (simp_all add: sample_def utf16_eq_iff)
  note frame = onSubmit_frame [of ?reg ?data "samples 2", THEN conjunct2, rule_format]
  show ?thesis
    using frame [of 0] frame [of 1] ids by (simp add: s2)
qed

section \<open>Properties: export\<close>

lemma remdups_append_subset: "set xs \<subseteq> set ys \<Longrightarrow> remdups (xs @ ys) = remdups ys"
  by (induction xs) auto

lemma keys_exportData:
  "concat (map (map fst) (exportData f regs)) = concat (map (\<lambda>r. export_columns) regs)"
  by (induction regs) (simp_all add: exportData_def export_columns_def)

lemma distinct_export_columns: "distinct export_columns"
  by (simp add: export_columns_def utf16_eq_iff)

lemma sheet_columns_exportData:
  assumes "regs \<noteq> []"
  shows "sheet_columns (exportData f regs) = export_columns"
proof -
  from assms obtain r rs where regs: "regs = r # rs" by (cases regs) auto
  have "rev (concat (map (map fst) (exportData f regs)))
      = rev (concat (map (\<lambda>r. export_columns) rs)) @ rev export_columns"
    by (simp add: keys_exportData regs)
  moreover have "set (rev (concat (map (\<lambda>r. export_columns) rs))) \<subseteq> set (rev export_columns)"
    by auto
  ultimately have "remdups (rev (concat (map (map fst) (exportData f regs))))
      = remdups (rev export_columns)"
    by (simp only: remdups_append_subset)
  also have "\<dots> = rev export_columns"
    using distinct_export_columns by (simp add: distinct_remdups_id)
  finally show ?thesis by (simp add: sheet_columns_def)
qed

lemma rows_exportData:
  "map (\<lambda>obj. map (map_of obj) export_columns) (exportData f regs)
     = map (\<lambda>reg. map Some (export_row f reg)) regs"
  by (simp add: exportData_def export_columns_def export_row_def utf16_eq_iff)

text \<open>
  C8, as the claim states it, fails for the empty record set: the columns of the sheet are
  the keys of the row objects, an empty record set gives no row object, and the sheet of
  the exported workbook then holds no cell at all instead of the seven column names.
\<close>

theorem handleExport_empty_counterexample:
  "fst (snd (handleExport (\<lambda>s. s) ''2024-01-01'' [])) \<noteq>
     [(''Registrations'',
       [[Some (utf16 ''Name''), Some (utf16 ''Mobile''), Some (utf16 ''Email''),
         Some (utf16 ''Gender''), Some (utf16 ''Department''), Some (utf16 ''Address''),
         Some (utf16 ''Registered Date'')]])]"
  by (simp add: handleExport_def json_to_sheet_def sheet_columns_def exportData_def
      book_append_sheet_def book_new_def)

text \<open>
  C8, amended. The export of a non-empty in-memory record set is a workbook with the single
  sheet "Registrations", whose first row holds the column names Name, Mobile, Email, Gender,
  Department, Address, Registered Date and whose further rows are one per record of the
  whole in-memory set, in its order, whatever the search text, department selection and
  page of the table. The export of an empty record set is a workbook with the single sheet
  "Registrations" that has no cells: neither column names nor data rows.
\<close>

theorem onExport_sheet:
  "(registrations st \<noteq> [] \<longrightarrow>
      onExport f today st =
        (''registrations-'' @ today @ ''.xlsx'',
         [(''Registrations'',
           map Some export_columns # map (\<lambda>reg. map Some (export_row f reg)) (registrations st))],
         Toast_success ''Export completed''))
   \<and> (registrations st = [] \<longrightarrow>
      onExport f today st =
        (''registrations-'' @ today @ ''.xlsx'', [(''Registrations'', [[]])],
         Toast_success ''Export completed''))"
proof -
  have "handleExport f today [] =
        (''registrations-'' @ today @ ''.xlsx'', [(''Registrations'', [[]])],
         Toast_success ''Export completed'')"
    by (simp add: handleExport_def json_to_sheet_def sheet_columns_def exportData_def
        book_append_sheet_def book_new_def)
  moreover have "json_to_sheet (exportData f regs) =
      map Some export_columns # map (\<lambda>reg. map Some (export_row f reg)) regs"
    if "regs \<noteq> []" for regs
    unfolding json_to_sheet_def Let_def sheet_columns_exportData [OF that] rows_exportData ..
  ultimately show ?thesis
    by (simp add: onExport_def handleExport_def book_append_sheet_def book_new_def)
qed

text \<open>One record in memory and a search that hides it: the export still holds its row.\<close>

theorem onExport_sheet_witness:
  "registrations (step (Search_changed (utf16 ''zz'')) (step (Fetched (samples 1)) initial_state)) \<noteq> []
   \<and> filtered (step (Search_changed (utf16 ''zz'')) (step (Fetched (samples 1)) initial_state)) = []
   \<and> onExport (take 10) ''2024-05-05''
        (step (Search_changed (utf16 ''zz'')) (step (Fetched (samples 1)) initial_state)) =
    (''registrations-2024-05-05.xlsx'',
     [(''Registrations'',
       [[Some (utf16 ''Name''), Some (utf16 ''Mobile''), Some (utf16 ''Email''),
         Some (utf16 ''Gender''), Some (utf16 ''Department''), Some (utf16 ''Address''),
         Some (utf16 ''Registered Date'')],
        [Some (utf16 ''Ann''), Some (utf16 ''9876543210''), Some (utf16 ''user@mail.org''),
         Some (utf16 ''other''), Some (utf16 ''Sales''), Some (utf16 ''1 Long Street, Town''),
         Some (utf16 ''2024-01-01'')]])],
     Toast_success ''Export completed'')"
proof -
  have s1: "samples (Suc 0) = [sample ''x'' ''Ann'' ''Sales'']"
    by (simp add: samples_def)
  have "filteredRegistrations [sample ''x'' ''Ann'' ''Sales''] (utf16 ''zz'') (utf16 ''all'') = []"
    by (simp add: filteredRegistrations_def sample_def utf16_eval)
  then show ?thesis
    using onExport_sheet [of "step (Search_changed (utf16 ''zz'')) (step (Fetched (samples 1)) initial_state)"
        "take 10" "''2024-05-05''"]
    by (simp add: s1 initial_state_def filtered_def export_columns_def export_row_def sample_def
        utf16_def)
qed

section \<open>Properties: file selection\<close>

text \<open>
  C10. When the change handler of the file-upload control is given a file whose declared
  media type is none of image/jpeg, image/jpg, image/png, or whose size exceeds 2 MiB, it
  makes no call of onChange and leaves the preview alone, so the held file, the preview
  and the error message stay as they were. Given null it clears the held file and the
  preview. It never touches the error message, and a held file is only ever cleared by
  passing null.
\<close>

theorem file_rejected_keeps_state:
  "(file_type f \<notin> {''image/jpeg'', ''image/jpg'', ''image/png''} \<or> file_size f > 2097152 \<longrightarrow>
       handleFileChange rd (Some f) pv = (pv, []) \<and> file_selected rd (Some f) st = st)
   \<and> handleFileChange rd None pv = (None, [None])
   \<and> file_selected rd None st = st\<lparr>preview := None, photoFile := None\<rparr>
   \<and> photoError (file_selected rd file st) = photoError st
   \<and> (photoFile st \<noteq> None \<and> photoFile (file_selected rd file st) = None \<longrightarrow> file = None)"
  by (auto simp: handleFileChange_def file_selected_def ACCEPTED_IMAGE_TYPES_def MAX_FILE_SIZE_def
      split: option.splits)

text \<open>A png is held; a gif and a png one byte above the limit are offered, then null.\<close>

theorem file_rejected_keeps_state_witness:
  "file_selected (\<lambda>f. Some (file_name f))
      (Some \<lparr>file_name = ''b.gif'', file_type = ''image/gif'', file_size = 10\<rparr>)
      \<lparr>photoFile = Some \<lparr>file_name = ''a.png'', file_type = ''image/png'', file_size = 1000\<rparr>,
       photoError = [], preview = Some ''a.png''\<rparr>
    = \<lparr>photoFile = Some \<lparr>file_name = ''a.png'', file_type = ''image/png'', file_size = 1000\<rparr>,
       photoError = [], preview = Some ''a.png''\<rparr>
   \<and> file_selected (\<lambda>f. Some (file_name f))
      (Some \<lparr>file_name = ''c.png'', file_type = ''image/png'', file_size = 2097153\<rparr>)
      \<lparr>photoFile = Some \<lparr>file_name = ''a.png'', file_type = ''image/png'', file_size = 1000\<rparr>,
       photoError = [], preview = Some ''a.png''\<rparr>
    = \<lparr>photoFile = Some \<lparr>file_name = ''a.png'', file_type = ''image/png'', file_size = 1000\<rparr>,
       photoError = [], preview = Some ''a.png''\<rparr>
   \<and> file_selected (\<lambda>f. Some (file_name f)) None
      \<lparr>photoFile = Some \<lparr>file_name = ''a.png'', file_type = ''image/png'', file_size = 1000\<rparr>,
       photoError = [], preview = Some ''a.png''\<rparr>
    = \<lparr>photoFile = None, photoError = [], preview = None\<rparr>"
proof -
  let ?st = "\<lparr>photoFile = Some \<lparr>file_name = ''a.png'', file_type = ''image/png'', file_size = 1000\<rparr>,
       photoError = [], preview = Some ''a.png''\<rparr>"
  let ?rd = "\<lambda>f. Some (file_name f)"
  show ?thesis
    using file_rejected_keeps_state
        [of "\<lparr>file_name = ''b.gif'', file_type = ''image/gif'', file_size = 10\<rparr>" ?rd undefined ?st None]
      file_rejected_keeps_state
        [of "\<lparr>file_name = ''c.png'', file_type = ''image/png'', file_size = 2097153\<rparr>" ?rd undefined ?st None]
    by simp
qed

end
